theory Spec2Isabelle
  imports Main "HOL-Library.Word"
begin

section \<open>The stack allocator of PRS (prs/alloc/stack.c)\<close>

text \<open>
  The allocator reserves \<open>PRS_MAX_STACK_SIZE\<close> bytes of address space per stack, commits
  the pages at the end of the reservation, and commits more of them when the stack
  overflows. Addresses (\<open>prs_uintptr_t\<close>, \<open>void*\<close>) and sizes (\<open>prs_size_t\<close>) are
  machine words \<open>'a word\<close> of the pointer width: \<open>+\<close>, \<open>-\<close> and \<open>*\<close> wrap around, and
  \<open>\<le>\<close>, \<open><\<close> compare unsigned, as in C.
\<close>

subsection \<open>Build configuration\<close>

text \<open>
  \<open>PRS_PAL_OS\<close> selects the \<open>#if PRS_PAL_OS == PRS_PAL_OS_WINDOWS\<close> branches: the
  guard-page platform takes them, every other platform (Linux, in the comments of the file)
  takes the \<open>#else\<close> branches. The value of the macro \<open>PRS_MAX_STACK_SIZE\<close>
  (prs/config.h) and the page size returned by \<open>prs_pal_os_get_page_size\<close>
  (prs/pal/os.h) are parameters of the model.
\<close>

datatype os_kind = PRS_PAL_OS_WINDOWS | PRS_PAL_OS_LINUX

record 'w config =
  PRS_PAL_OS :: os_kind
  os_page_size :: 'w
  PRS_MAX_STACK_SIZE :: 'w

definition prs_pal_os_get_page_size :: "'a::len word config \<Rightarrow> 'a word" where
  "prs_pal_os_get_page_size cfg = os_page_size cfg"

definition PRS_STACK_EXTRA_PAGES :: "'a::len word config \<Rightarrow> 'a word" where
  "PRS_STACK_EXTRA_PAGES cfg =
     (case PRS_PAL_OS cfg of PRS_PAL_OS_WINDOWS \<Rightarrow> 3 | PRS_PAL_OS_LINUX \<Rightarrow> 0)"

subsection \<open>Alignment helper\<close>

text \<open>
  Modelled from the spec: the code of \<open>prs_bitops_align_size\<close> (prs/pal/bitops.h) is
  missing. The specification describes the helper as rounding a byte count up to the next
  multiple of a given page size. \<open>align_up\<close> is that rounding on natural numbers; the
  helper returns it in a \<open>prs_size_t\<close>, so a result that does not fit is reduced modulo
  the word size. The theorems below that depend on the rounding assume that it fits.
\<close>

definition align_up :: "nat \<Rightarrow> nat \<Rightarrow> nat" where
  "align_up n a = (n + (a - 1)) div a * a"

definition prs_bitops_align_size :: "'a::len word \<Rightarrow> 'a word \<Rightarrow> 'a word" where
  "prs_bitops_align_size sz align = word_of_nat (align_up (unat sz) (unat align))"

subsection \<open>Memory primitives\<close>

text \<open>
  Modelled from the spec: the code of the primitives \<open>prs_pal_mem_map\<close>,
  \<open>prs_pal_mem_commit\<close> and \<open>prs_pal_mem_unmap\<close> (prs/pal/mem.h) is missing. The
  specification lists them: reserve a range of address space (returning its base address,
  or null on failure), commit a sub-range with protection flags drawn from read, write and
  guard, and unmap a whole range. Their effect on the operating system is recorded as the
  list of calls made, in order. What the operating system answers to a reservation is an
  input of the model (\<open>0\<close> is the null pointer).
\<close>

datatype mem_flag = PRS_PAL_MEM_FLAG_READ | PRS_PAL_MEM_FLAG_WRITE | PRS_PAL_MEM_FLAG_GUARD

datatype 'w pal_call =
    Mem_map 'w "mem_flag set" 'w
  | Mem_commit 'w 'w "mem_flag set"
  | Mem_unmap 'w 'w

definition prs_pal_mem_map ::
  "'a::len word \<Rightarrow> mem_flag set \<Rightarrow> 'a word \<Rightarrow> 'a word pal_call list \<Rightarrow> 'a word pal_call list" where
  "prs_pal_mem_map sz flags answer tr = tr @ [Mem_map sz flags answer]"

definition prs_pal_mem_commit ::
  "'a::len word \<Rightarrow> 'a word \<Rightarrow> mem_flag set \<Rightarrow> 'a word pal_call list \<Rightarrow> 'a word pal_call list" where
  "prs_pal_mem_commit ptr sz flags tr = tr @ [Mem_commit ptr sz flags]"

definition prs_pal_mem_unmap ::
  "'a::len word \<Rightarrow> 'a word \<Rightarrow> 'a word pal_call list \<Rightarrow> 'a word pal_call list" where
  "prs_pal_mem_unmap ptr sz tr = tr @ [Mem_unmap ptr sz]"

text \<open>
  The reservations that a sequence of calls leaves behind: every successful
  \<open>Mem_map\<close> adds its range, \<open>Mem_unmap\<close> of that range removes it.
\<close>

fun outstanding :: "'a::len word pal_call list \<Rightarrow> ('a word \<times> 'a word) list \<Rightarrow> ('a word \<times> 'a word) list" where
  "outstanding [] rs = rs"
| "outstanding (Mem_map sz flags answer # cs) rs =
     outstanding cs (if answer = 0 then rs else rs @ [(answer, sz)])"
| "outstanding (Mem_commit ptr sz flags # cs) rs = outstanding cs rs"
| "outstanding (Mem_unmap ptr sz # cs) rs = outstanding cs (removeAll (ptr, sz) rs)"

fun is_commit :: "'w pal_call \<Rightarrow> bool" where
  "is_commit (Mem_commit ptr sz flags) = True"
| "is_commit c = False"

subsection \<open>Results\<close>

text \<open>
  Modelled from the spec: the macros \<open>PRS_PRECONDITION\<close>, \<open>PRS_ASSERT\<close>,
  \<open>PRS_ERROR_IF\<close> (prs/error.h) and \<open>PRS_RTC_IF\<close> (prs/rtc.h) are missing. In the
  specification a violated precondition or assertion is a programming error that
  terminates the program at once: such a call has the result \<open>Inl\<close>. A checked runtime
  condition and a failed reservation are reported as an ordinary failure result:
  \<open>PRS_RTC_IF\<close> and \<open>PRS_ERROR_IF\<close> are conditionals.

  A call that returns gives the returned value, the content of the output parameter after
  the call (\<open>*available_size\<close>, \<open>*new_size\<close>; its content before the call is an
  argument of the model) and the calls it made to the memory primitives.
\<close>

datatype fatal = Precondition_failed | Assertion_failed

record ('r, 'w) outcome =
  returned :: 'r
  slot :: 'w
  pal_calls :: "'w pal_call list"

subsection \<open>prs\_stack\_create\<close>

definition prs_stack_create ::
  "'a::len word config \<Rightarrow> 'a word \<Rightarrow> 'a word \<Rightarrow> 'a word \<Rightarrow> fatal + ('a word, 'a word) outcome" where
  "prs_stack_create cfg map_answer sz available_size =
    (if \<not> sz > 0 then Inl Precondition_failed
     else
       let page_size = prs_pal_os_get_page_size cfg;
           aligned_size = prs_bitops_align_size sz page_size
       in
       if aligned_size > PRS_MAX_STACK_SIZE cfg
       then Inr \<lparr>returned = 0, slot = available_size, pal_calls = []\<rparr>
       else if \<not> aligned_size = prs_bitops_align_size aligned_size page_size
       then Inl Assertion_failed
       else
         let stack_bottom = map_answer;
             tr = prs_pal_mem_map (PRS_MAX_STACK_SIZE cfg) {} map_answer []
         in
         if stack_bottom = 0
         then Inr \<lparr>returned = 0, slot = available_size, pal_calls = tr\<rparr>
         else
           let protected_size = PRS_MAX_STACK_SIZE cfg - aligned_size;
               stack_limit = stack_bottom + protected_size;
               extra_size = page_size * (1 + PRS_STACK_EXTRA_PAGES cfg)
           in
           if PRS_PAL_OS cfg = PRS_PAL_OS_WINDOWS
              \<and> aligned_size > PRS_MAX_STACK_SIZE cfg - extra_size
           then Inr \<lparr>returned = 0, slot = available_size, pal_calls = tr\<rparr>
           else
             let stack_extra = stack_limit - extra_size;
                 stack_guard = stack_limit - page_size;
                 tr = (if PRS_PAL_OS cfg = PRS_PAL_OS_WINDOWS
                       then prs_pal_mem_commit stack_guard page_size
                              {PRS_PAL_MEM_FLAG_GUARD, PRS_PAL_MEM_FLAG_READ, PRS_PAL_MEM_FLAG_WRITE}
                             (prs_pal_mem_commit stack_extra
                                (page_size * PRS_STACK_EXTRA_PAGES cfg)
                                {PRS_PAL_MEM_FLAG_READ, PRS_PAL_MEM_FLAG_WRITE} tr)
                       else tr);
                 tr = prs_pal_mem_commit stack_limit aligned_size
                        {PRS_PAL_MEM_FLAG_READ, PRS_PAL_MEM_FLAG_WRITE} tr;
                 stack = stack_bottom + PRS_MAX_STACK_SIZE cfg
             in Inr \<lparr>returned = stack, slot = aligned_size, pal_calls = tr\<rparr>)"

subsection \<open>prs\_stack\_destroy\<close>

definition prs_stack_destroy :: "'a::len word config \<Rightarrow> 'a word \<Rightarrow> 'a word pal_call list" where
  "prs_stack_destroy cfg stack =
    (let stack_bottom = stack - PRS_MAX_STACK_SIZE cfg
     in prs_pal_mem_unmap stack_bottom (PRS_MAX_STACK_SIZE cfg) [])"

subsection \<open>prs\_stack\_grow\<close>

definition prs_stack_grow ::
  "'a::len word config \<Rightarrow> 'a word \<Rightarrow> 'a word \<Rightarrow> 'a word \<Rightarrow> 'a word \<Rightarrow> fatal + (bool, 'a word) outcome" where
  "prs_stack_grow cfg stack old_size failed_ptr new_size =
    (if stack = 0 then Inl Precondition_failed
     else
       let page_size = prs_pal_os_get_page_size cfg;
           required_size = stack - failed_ptr;
           grow_size = (if PRS_PAL_OS cfg = PRS_PAL_OS_WINDOWS
                        then (1 + PRS_STACK_EXTRA_PAGES cfg) * page_size
                        else prs_bitops_align_size required_size page_size)
       in
       if PRS_PAL_OS cfg \<noteq> PRS_PAL_OS_WINDOWS \<and> \<not> required_size > old_size
       then Inl Assertion_failed
       else
         let aligned_new_size = (if PRS_PAL_OS cfg = PRS_PAL_OS_WINDOWS
                                 then old_size + grow_size
                                 else prs_bitops_align_size required_size page_size)
         in
         if aligned_new_size > PRS_MAX_STACK_SIZE cfg
         then Inr \<lparr>returned = False, slot = new_size, pal_calls = []\<rparr>
         else
           let stack_bottom = stack - PRS_MAX_STACK_SIZE cfg;
               protected_size = PRS_MAX_STACK_SIZE cfg - aligned_new_size;
               stack_limit = stack_bottom + protected_size
           in
           if PRS_PAL_OS cfg = PRS_PAL_OS_WINDOWS
              \<and> aligned_new_size > PRS_MAX_STACK_SIZE cfg - grow_size
           then Inr \<lparr>returned = False, slot = new_size, pal_calls = []\<rparr>
           else
             let stack_extra = stack_limit - grow_size;
                 stack_guard = stack_limit - page_size;
                 tr = (if PRS_PAL_OS cfg = PRS_PAL_OS_WINDOWS
                       then prs_pal_mem_commit stack_guard page_size
                              {PRS_PAL_MEM_FLAG_GUARD, PRS_PAL_MEM_FLAG_READ, PRS_PAL_MEM_FLAG_WRITE}
                             (prs_pal_mem_commit stack_extra
                                (page_size * PRS_STACK_EXTRA_PAGES cfg)
                                {PRS_PAL_MEM_FLAG_READ, PRS_PAL_MEM_FLAG_WRITE} [])
                       else []);
                 tr = prs_pal_mem_commit stack_limit grow_size
                        {PRS_PAL_MEM_FLAG_READ, PRS_PAL_MEM_FLAG_WRITE} tr
             in Inr \<lparr>returned = True, slot = aligned_new_size, pal_calls = tr\<rparr>)"

subsection \<open>prs\_stack\_address\_in\_range\<close>

definition prs_stack_address_in_range :: "'a::len word config \<Rightarrow> 'a word \<Rightarrow> 'a word \<Rightarrow> bool" where
  "prs_stack_address_in_range cfg stack address =
    (let ptr = address;
         start = stack - PRS_MAX_STACK_SIZE cfg;
         end_ptr = stack
     in ptr \<ge> start \<and> ptr < end_ptr)"

subsection \<open>Sizes and sequences of calls\<close>

text \<open>
  The bytes that the guard-page platform keeps below the committed region for the guard
  page and the extra pages, \<open>page_size * (1 + PRS_STACK_EXTRA_PAGES)\<close>, as a number;
  the other platform keeps none.
\<close>

definition guard_overhead :: "'a::len word config \<Rightarrow> nat" where
  "guard_overhead cfg =
     (case PRS_PAL_OS cfg of
        PRS_PAL_OS_WINDOWS \<Rightarrow> unat (os_page_size cfg) * (1 + 3)
      | PRS_PAL_OS_LINUX \<Rightarrow> 0)"

text \<open>
  The committed sizes that \<open>prs_stack_create\<close> and \<open>prs_stack_grow\<close> hand to their
  caller: a multiple of the page size that, with the guard overhead, is within the ceiling.
\<close>

definition committed_size_ok :: "'a::len word config \<Rightarrow> 'a word \<Rightarrow> bool" where
  "committed_size_ok cfg sz \<longleftrightarrow>
     unat (os_page_size cfg) dvd unat sz
     \<and> unat sz + guard_overhead cfg \<le> unat (PRS_MAX_STACK_SIZE cfg)"


subsection \<open>Example configurations\<close>

text \<open>
  Two concrete 64-bit configurations with 4096-byte pages and a ceiling of one megabyte,
  used to evaluate the functions on concrete inputs.
\<close>

definition linux_cfg :: "64 word config" where
  "linux_cfg = \<lparr>PRS_PAL_OS = PRS_PAL_OS_LINUX, os_page_size = 4096, PRS_MAX_STACK_SIZE = 0x100000\<rparr>"

definition windows_cfg :: "64 word config" where
  "windows_cfg = \<lparr>PRS_PAL_OS = PRS_PAL_OS_WINDOWS, os_page_size = 4096, PRS_MAX_STACK_SIZE = 0x100000\<rparr>"

section \<open>Rounding up to a page multiple\<close>

lemma align_up_dvd: "a dvd align_up n a"
  by (simp add: align_up_def)

lemma align_up_ge: "0 < a \<Longrightarrow> n \<le> align_up n a"
proof -
  assume a: "0 < a"
  have "n + (a - 1) = (n + (a - 1)) div a * a + (n + (a - 1)) mod a" by simp
  moreover have "(n + (a - 1)) mod a < a" using a by (rule mod_less_divisor)
  ultimately show ?thesis unfolding align_up_def by linarith
qed

lemma align_up_lt: "0 < a \<Longrightarrow> align_up n a < n + a"
proof -
  assume a: "0 < a"
  have "(n + (a - 1)) div a * a \<le> n + (a - 1)" by simp
  then show ?thesis unfolding align_up_def using a by linarith
qed

lemma align_up_multiple: "a dvd n \<Longrightarrow> align_up n a = n"
proof (cases "a = 0")
  case True
  assume "a dvd n" with True show ?thesis by (simp add: align_up_def)
next
  case False
  assume "a dvd n"
  then obtain k where k: "n = a * k" by (auto simp: dvd_def)
  have "(a * k + (a - 1)) div a = k + (a - 1) div a"
    using False by (rule div_mult_self4)
  moreover have "(a - 1) div a = 0" using False by simp
  ultimately show ?thesis by (simp add: align_up_def k)
qed

lemma align_up_idem: "align_up (align_up n a) a = align_up n a"
  by (rule align_up_multiple) (rule align_up_dvd)

lemma align_up_least: "0 < a \<Longrightarrow> a dvd m \<Longrightarrow> n \<le> m \<Longrightarrow> align_up n a \<le> m"
proof -
  assume a: "0 < a" and d: "a dvd m" and le: "n \<le> m"
  from d obtain k where k: "m = a * k" by (auto simp: dvd_def)
  have "n + (a - 1) < a * k + a" using le k a by linarith
  then have "n + (a - 1) < (k + 1) * a" by (simp add: algebra_simps)
  then have "(n + (a - 1)) div a < k + 1" using a by (simp add: div_less_iff_less_mult)
  then have "(n + (a - 1)) div a \<le> k" by simp
  then have "(n + (a - 1)) div a * a \<le> k * a" by (rule mult_le_mono1)
  then show ?thesis by (simp add: align_up_def k mult.commute)
qed


lemma unat_align_size:
  fixes sz a :: "'a::len word"
  assumes "align_up (unat sz) (unat a) < 2 ^ LENGTH('a)"
  shows "unat (prs_bitops_align_size sz a) = align_up (unat sz) (unat a)"
  using assms by (simp add: prs_bitops_align_size_def unat_of_nat)

section \<open>The address-in-range predicate\<close>

lemma prs_stack_address_in_range_iff:
  fixes cfg :: "'a::len word config"
  assumes "PRS_MAX_STACK_SIZE cfg \<le> stack"
  shows "prs_stack_address_in_range cfg stack address \<longleftrightarrow>
         unat stack - unat (PRS_MAX_STACK_SIZE cfg) \<le> unat address \<and> unat address < unat stack"
  using assms
  by (simp add: prs_stack_address_in_range_def Let_def word_le_nat_alt word_less_nat_alt unat_sub)

text \<open>
  Claim C3. \<open>prs_stack_address_in_range\<close> is a total function without effects. For a
  stack top \<open>stack\<close>, the end of a reservation of \<open>PRS_MAX_STACK_SIZE\<close> bytes as
  \<open>prs_stack_create\<close> returns it (so that \<open>stack - PRS_MAX_STACK_SIZE\<close> does not wrap
  around), it is true exactly for the addresses of the half-open interval
  \<open>[stack - PRS_MAX_STACK_SIZE, stack)\<close>, read as numbers: true at \<open>stack - 1\<close> and at
  \<open>stack - PRS_MAX_STACK_SIZE\<close>, false at \<open>stack\<close> and at
  \<open>stack - PRS_MAX_STACK_SIZE - 1\<close>.
\<close>

theorem prs_stack_address_in_range_interval:
  fixes cfg :: "'a::len word config"
  assumes "0 < PRS_MAX_STACK_SIZE cfg" and "PRS_MAX_STACK_SIZE cfg \<le> stack"
  shows "(prs_stack_address_in_range cfg stack address \<longleftrightarrow>
           unat stack - unat (PRS_MAX_STACK_SIZE cfg) \<le> unat address \<and> unat address < unat stack)
       \<and> prs_stack_address_in_range cfg stack (stack - 1)
       \<and> prs_stack_address_in_range cfg stack (stack - PRS_MAX_STACK_SIZE cfg)
       \<and> \<not> prs_stack_address_in_range cfg stack stack
       \<and> \<not> prs_stack_address_in_range cfg stack (stack - PRS_MAX_STACK_SIZE cfg - 1)"
proof -
  let ?M = "PRS_MAX_STACK_SIZE cfg"
  have M: "0 < unat ?M" "unat ?M \<le> unat stack"
    using assms by (simp_all add: word_le_nat_alt word_less_nat_alt)
  have s1: "unat (stack - 1) = unat stack - 1"
    using M by (simp add: unat_sub word_le_nat_alt)
  have sM: "unat (stack - ?M) = unat stack - unat ?M"
    using assms(2) by (rule unat_sub)
  have p1: "prs_stack_address_in_range cfg stack (stack - 1)"
    using M s1 by (simp add: prs_stack_address_in_range_iff [OF assms(2)])
  have p2: "prs_stack_address_in_range cfg stack (stack - ?M)"
    using M sM by (simp add: prs_stack_address_in_range_iff [OF assms(2)])
  have p3: "\<not> prs_stack_address_in_range cfg stack stack"
    by (simp add: prs_stack_address_in_range_iff [OF assms(2)])
  have p4: "\<not> prs_stack_address_in_range cfg stack (stack - ?M - 1)"
  proof (cases "stack = ?M")
    case True
    have "stack - ?M - 1 = - 1" using True by simp
    moreover have "unat (- 1 :: 'a word) = 2 ^ LENGTH('a) - 1"
      by (simp add: unsigned_minus_1_eq_mask mask_eq_exp_minus_1)
    moreover have "unat stack < 2 ^ LENGTH('a)" by (rule unsigned_less)
    ultimately have "\<not> unat (stack - ?M - 1) < unat stack" by (simp only:)
    then show ?thesis
      by (simp add: prs_stack_address_in_range_def Let_def word_less_nat_alt)
  next
    case False
    then have "?M < stack" using assms(2) by (simp add: order.strict_iff_order)
    then have lt: "unat ?M < unat stack" by (simp add: word_less_nat_alt)
    then have "1 \<le> stack - ?M" using sM by (simp add: word_le_nat_alt)
    then have "unat (stack - ?M - 1) = unat (stack - ?M) - 1" by (simp add: unat_sub)
    then show ?thesis using lt sM by (simp add: prs_stack_address_in_range_iff [OF assms(2)])
  qed
  show ?thesis using prs_stack_address_in_range_iff [OF assms(2), of address] p1 p2 p3 p4 by simp
qed

theorem prs_stack_address_in_range_interval_witness:
  "0 < PRS_MAX_STACK_SIZE linux_cfg \<and> PRS_MAX_STACK_SIZE linux_cfg \<le> 0x7f0000100000
   \<and> prs_stack_address_in_range linux_cfg 0x7f0000100000 0x7f00000ff123
   \<and> prs_stack_address_in_range linux_cfg 0x7f0000100000 (0x7f0000100000 - 1)
   \<and> prs_stack_address_in_range linux_cfg 0x7f0000100000 (0x7f0000100000 - PRS_MAX_STACK_SIZE linux_cfg)
   \<and> \<not> prs_stack_address_in_range linux_cfg 0x7f0000100000 0x7f0000100000
   \<and> \<not> prs_stack_address_in_range linux_cfg 0x7f0000100000 (0x7f0000100000 - PRS_MAX_STACK_SIZE linux_cfg - 1)"
  using prs_stack_address_in_range_interval [of linux_cfg "0x7f0000100000" "0x7f00000ff123"]
  by (simp add: linux_cfg_def)

text \<open>
  Below the ceiling the subtraction wraps around: for a pointer that is smaller than
  \<open>PRS_MAX_STACK_SIZE\<close>, and so is not the top of a reservation, the predicate is false
  at every address.
\<close>

lemma prs_stack_address_in_range_wraps:
  fixes cfg :: "'a::len word config"
  assumes "stack < PRS_MAX_STACK_SIZE cfg"
  shows "\<not> prs_stack_address_in_range cfg stack address"
proof -
  have "unat (stack - PRS_MAX_STACK_SIZE cfg) = unat stack + 2 ^ LENGTH('a) - unat (PRS_MAX_STACK_SIZE cfg)"
    using assms by (simp add: unat_sub_if_size word_less_nat_alt word_size)
  moreover have "unat (PRS_MAX_STACK_SIZE cfg) < 2 ^ LENGTH('a)" by simp
  ultimately have "unat stack \<le> unat (stack - PRS_MAX_STACK_SIZE cfg)" by linarith
  then show ?thesis
    by (simp add: prs_stack_address_in_range_def Let_def word_le_nat_alt word_less_nat_alt)
qed

lemma prs_stack_address_in_range_top:
  fixes cfg :: "'a::len word config"
  assumes "prs_stack_address_in_range cfg stack address"
  shows "PRS_MAX_STACK_SIZE cfg \<le> stack"
proof (rule ccontr)
  assume "\<not> PRS_MAX_STACK_SIZE cfg \<le> stack"
  then have "stack < PRS_MAX_STACK_SIZE cfg" by (simp add: not_le)
  then have "\<not> prs_stack_address_in_range cfg stack address"
    by (rule prs_stack_address_in_range_wraps)
  with assms show False by simp
qed

section \<open>Creating a stack\<close>

lemma unat_align_size_le:
  fixes sz p m :: "'a::len word"
  assumes "align_up (unat sz) (unat p) \<le> unat m"
  shows "unat (prs_bitops_align_size sz p) = align_up (unat sz) (unat p)"
proof -
  have "unat m < 2 ^ LENGTH('a)" by (rule unsigned_less)
  with assms have "align_up (unat sz) (unat p) < 2 ^ LENGTH('a)" by linarith
  then show ?thesis by (rule unat_align_size)
qed

lemma align_size_idem:
  fixes sz p :: "'a::len word"
  assumes "align_up (unat sz) (unat p) < 2 ^ LENGTH('a)"
  shows "prs_bitops_align_size (prs_bitops_align_size sz p) p = prs_bitops_align_size sz p"
proof -
  have "unat (prs_bitops_align_size sz p) = align_up (unat sz) (unat p)"
    using assms by (rule unat_align_size)
  then have "align_up (unat (prs_bitops_align_size sz p)) (unat p) = align_up (unat sz) (unat p)"
    by (simp add: align_up_idem)
  then show ?thesis by (simp add: prs_bitops_align_size_def)
qed

lemma windows_extra_size:
  fixes p m :: "'a::len word"
  assumes "unat p * 4 \<le> unat m"
  shows "unat (p * (1 + 3)) = unat p * 4"
    and "unat (m - p * (1 + 3)) = unat m - unat p * 4"
proof -
  have m: "unat m < 2 ^ LENGTH('a)" by (rule unsigned_less)
  have "p * (1 + 3) = word_of_nat (unat p * 4)" by simp
  then have "unat (p * (1 + 3)) = (unat p * 4) mod 2 ^ LENGTH('a)"
    by (simp only: unat_of_nat)
  moreover have "unat p * 4 < 2 ^ LENGTH('a)" using assms m by linarith
  ultimately show a: "unat (p * (1 + 3)) = unat p * 4" by simp
  then have "p * (1 + 3) \<le> m" using assms by (simp only: word_le_nat_alt)
  then have "unat (m - p * (1 + 3)) = unat m - unat (p * (1 + 3))" by (rule unat_sub)
  then show "unat (m - p * (1 + 3)) = unat m - unat p * 4" using a by simp
qed

lemma create_checks:
  fixes cfg :: "'a::len word config"
  assumes fit: "align_up (unat sz) (unat (os_page_size cfg)) + guard_overhead cfg
                \<le> unat (PRS_MAX_STACK_SIZE cfg)"
  shows "unat (prs_bitops_align_size sz (os_page_size cfg)) = align_up (unat sz) (unat (os_page_size cfg))"
    and "\<not> PRS_MAX_STACK_SIZE cfg < prs_bitops_align_size sz (os_page_size cfg)"
    and "prs_bitops_align_size (prs_bitops_align_size sz (os_page_size cfg)) (os_page_size cfg)
         = prs_bitops_align_size sz (os_page_size cfg)"
    and "PRS_PAL_OS cfg = PRS_PAL_OS_WINDOWS \<Longrightarrow>
         \<not> PRS_MAX_STACK_SIZE cfg - os_page_size cfg * (1 + 3) < prs_bitops_align_size sz (os_page_size cfg)"
proof -
  let ?p = "os_page_size cfg" and ?M = "PRS_MAX_STACK_SIZE cfg"
  have le: "align_up (unat sz) (unat ?p) \<le> unat ?M" using fit by linarith
  show u: "unat (prs_bitops_align_size sz ?p) = align_up (unat sz) (unat ?p)"
    using le by (rule unat_align_size_le)
  show "\<not> ?M < prs_bitops_align_size sz ?p"
    using le u by (simp add: word_less_nat_alt)
  have "unat ?M < 2 ^ LENGTH('a)" by (rule unsigned_less)
  with le have "align_up (unat sz) (unat ?p) < 2 ^ LENGTH('a)" by linarith
  then show "prs_bitops_align_size (prs_bitops_align_size sz ?p) ?p = prs_bitops_align_size sz ?p"
    by (rule align_size_idem)
  show "\<not> ?M - ?p * (1 + 3) < prs_bitops_align_size sz ?p" if "PRS_PAL_OS cfg = PRS_PAL_OS_WINDOWS"
  proof -
    have ov: "guard_overhead cfg = unat ?p * 4" using that by (simp add: guard_overhead_def)
    then have "unat ?p * 4 \<le> unat ?M" using fit by linarith
    then have "unat (?M - ?p * (1 + 3)) = unat ?M - unat ?p * 4" by (rule windows_extra_size(2))
    then show ?thesis using fit ov u by (simp only: word_less_nat_alt)
  qed
qed

lemma prs_stack_create_ok:
  fixes cfg :: "'a::len word config"
  assumes pos: "0 < sz"
      and fit: "align_up (unat sz) (unat (os_page_size cfg)) + guard_overhead cfg
                \<le> unat (PRS_MAX_STACK_SIZE cfg)"
      and ans: "map_answer \<noteq> 0"
  shows "prs_stack_create cfg map_answer sz available_size =
         Inr \<lparr>returned = map_answer + PRS_MAX_STACK_SIZE cfg,
              slot = prs_bitops_align_size sz (os_page_size cfg),
              pal_calls =
                Mem_map (PRS_MAX_STACK_SIZE cfg) {} map_answer #
                (if PRS_PAL_OS cfg = PRS_PAL_OS_WINDOWS
                 then [Mem_commit
                         (map_answer + (PRS_MAX_STACK_SIZE cfg - prs_bitops_align_size sz (os_page_size cfg))
                            - os_page_size cfg * (1 + 3))
                         (os_page_size cfg * 3)
                         {PRS_PAL_MEM_FLAG_READ, PRS_PAL_MEM_FLAG_WRITE},
                       Mem_commit
                         (map_answer + (PRS_MAX_STACK_SIZE cfg - prs_bitops_align_size sz (os_page_size cfg))
                            - os_page_size cfg)
                         (os_page_size cfg)
                         {PRS_PAL_MEM_FLAG_GUARD, PRS_PAL_MEM_FLAG_READ, PRS_PAL_MEM_FLAG_WRITE}]
                 else []) @
                [Mem_commit
                   (map_answer + (PRS_MAX_STACK_SIZE cfg - prs_bitops_align_size sz (os_page_size cfg)))
                   (prs_bitops_align_size sz (os_page_size cfg))
                   {PRS_PAL_MEM_FLAG_READ, PRS_PAL_MEM_FLAG_WRITE}]\<rparr>"
proof (cases "PRS_PAL_OS cfg")
  case PRS_PAL_OS_WINDOWS
  note c = create_checks [OF fit, of ]
  show ?thesis
    using pos ans c(2) c(3) c(4) [OF PRS_PAL_OS_WINDOWS] PRS_PAL_OS_WINDOWS
    by (simp add: prs_stack_create_def Let_def prs_pal_os_get_page_size_def
        PRS_STACK_EXTRA_PAGES_def prs_pal_mem_map_def prs_pal_mem_commit_def)
next
  case PRS_PAL_OS_LINUX
  note c = create_checks [OF fit]
  show ?thesis
    using pos ans c(2) c(3) PRS_PAL_OS_LINUX
    by (simp add: prs_stack_create_def Let_def prs_pal_os_get_page_size_def
        PRS_STACK_EXTRA_PAGES_def prs_pal_mem_map_def prs_pal_mem_commit_def)
qed


text \<open>
  Claim C1. Let the requested size be positive, let its round-up to a page multiple be
  within the ceiling (less the guard overhead on the guard-page platform), and let the
  reservation succeed: \<open>prs_pal_mem_map\<close> answers the base of a range of
  \<open>PRS_MAX_STACK_SIZE\<close> bytes whose end is an address. Then \<open>prs_stack_create\<close>
  returns the non-null pointer \<open>base + PRS_MAX_STACK_SIZE\<close> and writes to
  \<open>*available_size\<close> the requested size rounded up to the next multiple of the page
  size, which is at most \<open>PRS_MAX_STACK_SIZE\<close>.
\<close>

theorem prs_stack_create_succeeds:
  fixes cfg :: "'a::len word config"
  assumes pos: "0 < sz"
      and page: "0 < os_page_size cfg"
      and fit: "align_up (unat sz) (unat (os_page_size cfg)) + guard_overhead cfg
                \<le> unat (PRS_MAX_STACK_SIZE cfg)"
      and ans: "map_answer \<noteq> 0"
      and top: "unat map_answer + unat (PRS_MAX_STACK_SIZE cfg) < 2 ^ LENGTH('a)"
  shows "\<exists>r. prs_stack_create cfg map_answer sz available_size = Inr r
           \<and> returned r \<noteq> 0
           \<and> returned r = map_answer + PRS_MAX_STACK_SIZE cfg
           \<and> unat (returned r) = unat map_answer + unat (PRS_MAX_STACK_SIZE cfg)
           \<and> slot r = prs_bitops_align_size sz (os_page_size cfg)
           \<and> unat (slot r) = align_up (unat sz) (unat (os_page_size cfg))
           \<and> unat (os_page_size cfg) dvd unat (slot r)
           \<and> unat sz \<le> unat (slot r)
           \<and> unat (slot r) < unat sz + unat (os_page_size cfg)
           \<and> slot r \<le> PRS_MAX_STACK_SIZE cfg"
proof -
  let ?p = "os_page_size cfg" and ?M = "PRS_MAX_STACK_SIZE cfg"
  let ?a = "prs_bitops_align_size sz ?p"
  have p: "0 < unat ?p" using page by (simp add: word_less_nat_alt)
  have u: "unat ?a = align_up (unat sz) (unat ?p)" by (rule create_checks(1) [OF fit])
  have sum: "unat (map_answer + ?M) = unat map_answer + unat ?M"
    using top by (simp only: unat_add_lem)
  have "0 < unat map_answer" using ans by (simp add: unat_gt_0)
  then have "0 < unat (map_answer + ?M)" using sum by linarith
  then have nz: "map_answer + ?M \<noteq> 0" by (simp add: unat_gt_0)
  have d: "unat ?p dvd unat ?a" using u by (simp add: align_up_dvd)
  have ge: "unat sz \<le> unat ?a" using u p by (simp add: align_up_ge)
  have lt: "unat ?a < unat sz + unat ?p" using u p by (simp add: align_up_lt)
  have le: "?a \<le> ?M" using create_checks(2) [OF fit] by simp
  show ?thesis
    unfolding prs_stack_create_ok [OF pos fit ans]
    using nz sum u d ge lt le by simp
qed

theorem prs_stack_create_succeeds_witness:
  "(0 :: 64 word) < 1 \<and> 0 < os_page_size windows_cfg
   \<and> align_up (unat (1 :: 64 word)) (unat (os_page_size windows_cfg)) + guard_overhead windows_cfg
       \<le> unat (PRS_MAX_STACK_SIZE windows_cfg)
   \<and> (0x7f0000000000 :: 64 word) \<noteq> 0
   \<and> unat (0x7f0000000000 :: 64 word) + unat (PRS_MAX_STACK_SIZE windows_cfg) < 2 ^ LENGTH(64)
   \<and> (\<exists>r. prs_stack_create windows_cfg 0x7f0000000000 1 7 = Inr r
          \<and> returned r = 0x7f0000100000 \<and> slot r = 4096)"
  using prs_stack_create_succeeds [where cfg = windows_cfg and sz = 1
      and map_answer = "0x7f0000000000" and available_size = 7]
  by (auto simp add: windows_cfg_def align_up_def guard_overhead_def prs_bitops_align_size_def)

section \<open>Reservations left behind, failure paths\<close>

lemma outstanding_append:
  "outstanding (xs @ ys) rs = outstanding ys (outstanding xs rs)"
  by (induction xs rs rule: outstanding.induct) simp_all

lemma outstanding_commits:
  "\<forall>c \<in> set cs. is_commit c \<Longrightarrow> outstanding cs rs = rs"
proof (induction cs)
  case Nil
  show ?case by simp
next
  case (Cons c cs)
  then show ?case by (cases c) simp_all
qed

lemma prs_stack_create_nonnull:
  fixes cfg :: "'a::len word config"
  assumes "prs_stack_create cfg map_answer sz available_size = Inr r"
      and "returned r \<noteq> 0"
  shows "map_answer \<noteq> 0"
    and "returned r = map_answer + PRS_MAX_STACK_SIZE cfg"
    and "slot r = prs_bitops_align_size sz (os_page_size cfg)"
    and "\<exists>cs. pal_calls r = Mem_map (PRS_MAX_STACK_SIZE cfg) {} map_answer # cs
              \<and> (\<forall>c \<in> set cs. is_commit c)"
  using assms
  by (auto simp add: prs_stack_create_def Let_def prs_pal_os_get_page_size_def
        prs_pal_mem_map_def prs_pal_mem_commit_def split: if_splits)

lemma prs_stack_create_null:
  fixes cfg :: "'a::len word config"
  assumes "prs_stack_create cfg map_answer sz available_size = Inr r"
      and "returned r = 0"
      and "map_answer \<noteq> 0 \<longrightarrow> map_answer + PRS_MAX_STACK_SIZE cfg \<noteq> 0"
  shows "slot r = available_size"
    and "\<forall>c \<in> set (pal_calls r). \<not> is_commit c"
  using assms
  by (auto simp add: prs_stack_create_def Let_def prs_pal_os_get_page_size_def
        prs_pal_mem_map_def prs_pal_mem_commit_def split: if_splits)

lemma prs_stack_grow_false:
  fixes cfg :: "'a::len word config"
  assumes "prs_stack_grow cfg stack old_size failed_ptr new_size = Inr r"
      and "\<not> returned r"
  shows "slot r = new_size" and "pal_calls r = []"
  using assms
  by (auto simp add: prs_stack_grow_def Let_def split: if_splits)

text \<open>
  A stack returned by \<open>prs_stack_create\<close> is the top of its reservation: it is at
  least \<open>PRS_MAX_STACK_SIZE\<close>, and \<open>stack - PRS_MAX_STACK_SIZE\<close> does not wrap around.
\<close>

lemma prs_stack_create_stack_top:
  fixes cfg :: "'a::len word config"
  assumes cr: "prs_stack_create cfg map_answer sz available_size = Inr r"
      and nn: "returned r \<noteq> 0"
      and top: "unat map_answer + unat (PRS_MAX_STACK_SIZE cfg) < 2 ^ LENGTH('a)"
  shows "PRS_MAX_STACK_SIZE cfg \<le> returned r"
proof -
  have "unat (map_answer + PRS_MAX_STACK_SIZE cfg)
        = unat map_answer + unat (PRS_MAX_STACK_SIZE cfg)"
    using top by (simp only: unat_add_lem)
  then show ?thesis
    unfolding prs_stack_create_nonnull(2) [OF cr nn] by (simp add: word_le_nat_alt)
qed

section \<open>Destroying a stack\<close>

text \<open>
  Claim C8. For a stack returned by \<open>prs_stack_create\<close>, \<open>prs_stack_destroy\<close>
  computes \<open>stack_bottom = stack - PRS_MAX_STACK_SIZE\<close>, which is the base of the
  reservation, and makes exactly one call: the unmap of the \<open>PRS_MAX_STACK_SIZE\<close> bytes
  at \<open>stack_bottom\<close>. After it no reservation of the stack is left.
\<close>

theorem prs_stack_destroy_unmaps_reservation:
  fixes cfg :: "'a::len word config"
  assumes cr: "prs_stack_create cfg map_answer sz available_size = Inr r"
      and nn: "returned r \<noteq> 0"
  shows "returned r - PRS_MAX_STACK_SIZE cfg = map_answer
       \<and> prs_stack_destroy cfg (returned r) = [Mem_unmap map_answer (PRS_MAX_STACK_SIZE cfg)]
       \<and> outstanding (pal_calls r) [] = [(map_answer, PRS_MAX_STACK_SIZE cfg)]
       \<and> outstanding (pal_calls r @ prs_stack_destroy cfg (returned r)) [] = []"
proof -
  let ?M = "PRS_MAX_STACK_SIZE cfg"
  note c = prs_stack_create_nonnull [OF cr nn]
  have bottom: "returned r - ?M = map_answer" using c(2) by simp
  have d: "prs_stack_destroy cfg (returned r) = [Mem_unmap map_answer ?M]"
    using bottom by (simp add: prs_stack_destroy_def Let_def prs_pal_mem_unmap_def)
  from c(4) obtain cs where cs: "pal_calls r = Mem_map ?M {} map_answer # cs"
    and com: "\<forall>c \<in> set cs. is_commit c" by blast
  have o: "outstanding (pal_calls r) [] = [(map_answer, ?M)]"
    using c(1) by (simp add: cs outstanding_commits [OF com])
  have "outstanding (pal_calls r @ prs_stack_destroy cfg (returned r)) [] = []"
    by (simp add: outstanding_append o d)
  with bottom d o show ?thesis by simp
qed

theorem prs_stack_destroy_unmaps_reservation_witness:
  "prs_stack_create linux_cfg 0x7f0000000000 1 7 =
     Inr \<lparr>returned = 0x7f0000100000, slot = 4096,
          pal_calls = [Mem_map 0x100000 {} 0x7f0000000000,
                       Mem_commit 0x7f00000ff000 4096 {PRS_PAL_MEM_FLAG_READ, PRS_PAL_MEM_FLAG_WRITE}]\<rparr>
   \<and> (0x7f0000100000 :: 64 word) \<noteq> 0
   \<and> prs_stack_destroy linux_cfg 0x7f0000100000 = [Mem_unmap 0x7f0000000000 (PRS_MAX_STACK_SIZE linux_cfg)]
   \<and> outstanding
        ([Mem_map 0x100000 {} 0x7f0000000000,
          Mem_commit 0x7f00000ff000 4096 {PRS_PAL_MEM_FLAG_READ, PRS_PAL_MEM_FLAG_WRITE}]
         @ prs_stack_destroy linux_cfg 0x7f0000100000) [] = []"
proof -
  have cr: "prs_stack_create linux_cfg 0x7f0000000000 1 7 =
    Inr \<lparr>returned = 0x7f0000100000, slot = 4096,
         pal_calls = [Mem_map 0x100000 {} 0x7f0000000000,
                      Mem_commit 0x7f00000ff000 4096 {PRS_PAL_MEM_FLAG_READ, PRS_PAL_MEM_FLAG_WRITE}]\<rparr>"
    by (simp add: prs_stack_create_def linux_cfg_def Let_def prs_pal_os_get_page_size_def
        prs_bitops_align_size_def align_up_def PRS_STACK_EXTRA_PAGES_def
        prs_pal_mem_map_def prs_pal_mem_commit_def)
  have "returned \<lparr>returned = 0x7f0000100000 :: 64 word, slot = 4096 :: 64 word,
         pal_calls = [Mem_map 0x100000 {} 0x7f0000000000,
                      Mem_commit 0x7f00000ff000 4096 {PRS_PAL_MEM_FLAG_READ, PRS_PAL_MEM_FLAG_WRITE}]\<rparr> \<noteq> 0"
    by simp
  from prs_stack_destroy_unmaps_reservation [OF cr this] cr show ?thesis by simp
qed

section \<open>Creation past the ceiling\<close>

text \<open>
  Claim C4. A call of \<open>prs_stack_create\<close> whose page-aligned size exceeds the ceiling
  should return null and leave no reservation or commit behind. On the guard-page
  platform the check against \<open>PRS_MAX_STACK_SIZE - extra_size\<close> comes after
  \<open>prs_pal_mem_map\<close>: a request for the whole ceiling, with 4096-byte pages and a ceiling
  of one megabyte, reserves the range, returns null, and the reservation stays.
\<close>

theorem prs_stack_create_windows_reservation_left:
  "prs_stack_create windows_cfg 0x7f0000000000 0x100000 7 =
     Inr \<lparr>returned = 0, slot = 7, pal_calls = [Mem_map 0x100000 {} 0x7f0000000000]\<rparr>
   \<and> outstanding [Mem_map 0x100000 {} (0x7f0000000000 :: 64 word)] [] = [(0x7f0000000000, 0x100000)]"
  by (simp add: prs_stack_create_def windows_cfg_def Let_def prs_pal_os_get_page_size_def
        prs_bitops_align_size_def align_up_def PRS_STACK_EXTRA_PAGES_def
        prs_pal_mem_map_def prs_pal_mem_commit_def)

text \<open>
  The first check, against \<open>PRS_MAX_STACK_SIZE\<close> itself, comes before the reservation
  and leaves nothing behind on either platform. The second one, on the guard-page platform,
  always leaves the reservation.
\<close>

lemma prs_stack_create_over_ceiling:
  fixes cfg :: "'a::len word config"
  assumes "0 < sz"
      and "PRS_MAX_STACK_SIZE cfg < prs_bitops_align_size sz (os_page_size cfg)"
  shows "prs_stack_create cfg map_answer sz available_size =
         Inr \<lparr>returned = 0, slot = available_size, pal_calls = []\<rparr>"
  using assms by (simp add: prs_stack_create_def Let_def prs_pal_os_get_page_size_def)

lemma prs_stack_create_windows_no_room:
  fixes cfg :: "'a::len word config"
  assumes "PRS_PAL_OS cfg = PRS_PAL_OS_WINDOWS"
      and "prs_stack_create cfg map_answer sz available_size = Inr r"
      and "map_answer \<noteq> 0"
      and "prs_bitops_align_size sz (os_page_size cfg) \<le> PRS_MAX_STACK_SIZE cfg"
      and "PRS_MAX_STACK_SIZE cfg - os_page_size cfg * (1 + 3)
           < prs_bitops_align_size sz (os_page_size cfg)"
  shows "r = \<lparr>returned = 0, slot = available_size,
              pal_calls = [Mem_map (PRS_MAX_STACK_SIZE cfg) {} map_answer]\<rparr>"
    and "outstanding (pal_calls r) [] = [(map_answer, PRS_MAX_STACK_SIZE cfg)]"
  using assms
  by (auto simp add: prs_stack_create_def Let_def prs_pal_os_get_page_size_def
        PRS_STACK_EXTRA_PAGES_def prs_pal_mem_map_def split: if_splits)


section \<open>Growing a stack\<close>

lemma prs_stack_grow_true:
  fixes cfg :: "'a::len word config"
  assumes "prs_stack_grow cfg stack old_size failed_ptr new_size = Inr r"
      and "returned r"
  shows "stack \<noteq> 0"
    and "slot r = (if PRS_PAL_OS cfg = PRS_PAL_OS_WINDOWS
                   then old_size + (1 + 3) * os_page_size cfg
                   else prs_bitops_align_size (stack - failed_ptr) (os_page_size cfg))"
    and "\<not> PRS_MAX_STACK_SIZE cfg < slot r"
    and "PRS_PAL_OS cfg = PRS_PAL_OS_WINDOWS \<longrightarrow>
           \<not> PRS_MAX_STACK_SIZE cfg - (1 + 3) * os_page_size cfg < slot r"
    and "PRS_PAL_OS cfg \<noteq> PRS_PAL_OS_WINDOWS \<longrightarrow> old_size < stack - failed_ptr"
    and "pal_calls r =
           (if PRS_PAL_OS cfg = PRS_PAL_OS_WINDOWS
            then [Mem_commit (stack - slot r - (1 + 3) * os_page_size cfg) (os_page_size cfg * 3)
                    {PRS_PAL_MEM_FLAG_READ, PRS_PAL_MEM_FLAG_WRITE},
                  Mem_commit (stack - slot r - os_page_size cfg) (os_page_size cfg)
                    {PRS_PAL_MEM_FLAG_GUARD, PRS_PAL_MEM_FLAG_READ, PRS_PAL_MEM_FLAG_WRITE},
                  Mem_commit (stack - slot r) ((1 + 3) * os_page_size cfg)
                    {PRS_PAL_MEM_FLAG_READ, PRS_PAL_MEM_FLAG_WRITE}]
            else [Mem_commit (stack - slot r) (slot r)
                    {PRS_PAL_MEM_FLAG_READ, PRS_PAL_MEM_FLAG_WRITE}])"
  using assms
  by (auto simp add: prs_stack_grow_def Let_def prs_pal_os_get_page_size_def
        PRS_STACK_EXTRA_PAGES_def prs_pal_mem_commit_def split: if_splits)

text \<open>
  Claim C2. When \<open>prs_stack_grow\<close> returns \<open>PRS_TRUE\<close>, the size it writes follows the
  platform: on the guard-page platform it is \<open>old_size\<close> plus one guard page and the
  three extra pages, whatever \<open>failed_ptr\<close> is (the call with any other pointer gives the
  same result); on the other platform it is \<open>stack - failed_ptr\<close> rounded up to a page
  multiple by \<open>prs_bitops_align_size\<close>.
\<close>

theorem prs_stack_grow_new_size_policy:
  fixes cfg :: "'a::len word config"
  assumes g: "prs_stack_grow cfg stack old_size failed_ptr new_size = Inr r"
      and t: "returned r"
  shows "(case PRS_PAL_OS cfg of
            PRS_PAL_OS_WINDOWS \<Rightarrow>
              slot r = old_size + (1 + PRS_STACK_EXTRA_PAGES cfg) * os_page_size cfg
              \<and> PRS_STACK_EXTRA_PAGES cfg = 3
              \<and> prs_stack_grow cfg stack old_size other_ptr new_size = Inr r
          | PRS_PAL_OS_LINUX \<Rightarrow>
              slot r = prs_bitops_align_size (stack - failed_ptr) (os_page_size cfg)
              \<and> unat (slot r) =
                  align_up (unat (stack - failed_ptr)) (unat (os_page_size cfg)) mod 2 ^ LENGTH('a))"
proof (cases "PRS_PAL_OS cfg")
  case PRS_PAL_OS_WINDOWS
  have "prs_stack_grow cfg stack old_size other_ptr new_size
        = prs_stack_grow cfg stack old_size failed_ptr new_size"
    using PRS_PAL_OS_WINDOWS by (simp add: prs_stack_grow_def Let_def)
  then show ?thesis
    using PRS_PAL_OS_WINDOWS prs_stack_grow_true(2) [OF g t] g
    by (simp add: PRS_STACK_EXTRA_PAGES_def)
next
  case PRS_PAL_OS_LINUX
  then show ?thesis
    using prs_stack_grow_true(2) [OF g t]
    by (simp add: prs_bitops_align_size_def unat_of_nat)
qed

lemma linux_grow_example:
  "prs_stack_grow linux_cfg 0x7f0000100000 4096 (0x7f0000100000 - 4097) 4096 =
     Inr \<lparr>returned = True, slot = 8192,
          pal_calls = [Mem_commit (0x7f0000100000 - 8192) 8192
                         {PRS_PAL_MEM_FLAG_READ, PRS_PAL_MEM_FLAG_WRITE}]\<rparr>"
  by (simp add: prs_stack_grow_def linux_cfg_def Let_def prs_pal_os_get_page_size_def
        prs_bitops_align_size_def align_up_def PRS_STACK_EXTRA_PAGES_def prs_pal_mem_commit_def)

lemma windows_grow_example:
  "prs_stack_grow windows_cfg 0x7f0000100000 4096 (0x7f0000100000 - 4097) 4096 =
     Inr \<lparr>returned = True, slot = 20480,
          pal_calls = [Mem_commit (0x7f0000100000 - 36864) 12288
                         {PRS_PAL_MEM_FLAG_READ, PRS_PAL_MEM_FLAG_WRITE},
                       Mem_commit (0x7f0000100000 - 24576) 4096
                         {PRS_PAL_MEM_FLAG_GUARD, PRS_PAL_MEM_FLAG_READ, PRS_PAL_MEM_FLAG_WRITE},
                       Mem_commit (0x7f0000100000 - 20480) 16384
                         {PRS_PAL_MEM_FLAG_READ, PRS_PAL_MEM_FLAG_WRITE}]\<rparr>"
  by (simp add: prs_stack_grow_def windows_cfg_def Let_def prs_pal_os_get_page_size_def
        prs_bitops_align_size_def align_up_def PRS_STACK_EXTRA_PAGES_def prs_pal_mem_commit_def)

theorem prs_stack_grow_new_size_policy_witness:
  "(\<exists>r. prs_stack_grow windows_cfg 0x7f0000100000 4096 (0x7f0000100000 - 4097) 4096 = Inr r
        \<and> returned r
        \<and> slot r = 4096 + (1 + 3) * os_page_size windows_cfg
        \<and> prs_stack_grow windows_cfg 0x7f0000100000 4096 0x7f00000f0000 4096 = Inr r)
   \<and> (\<exists>r. prs_stack_grow linux_cfg 0x7f0000100000 4096 (0x7f0000100000 - 4097) 4096 = Inr r
        \<and> returned r
        \<and> slot r = prs_bitops_align_size 4097 (os_page_size linux_cfg)
        \<and> unat (slot r) = 8192)"
  using prs_stack_grow_new_size_policy [OF windows_grow_example, where other_ptr = "0x7f00000f0000"]
        prs_stack_grow_new_size_policy [OF linux_grow_example]
        windows_grow_example linux_grow_example
  by (simp add: windows_cfg_def linux_cfg_def PRS_STACK_EXTRA_PAGES_def align_up_def)

text \<open>
  Claim C5. When the new size computed by \<open>prs_stack_grow\<close> exceeds
  \<open>PRS_MAX_STACK_SIZE\<close>, or on the guard-page platform exceeds
  \<open>PRS_MAX_STACK_SIZE - grow_size\<close>, the call returns \<open>PRS_FALSE\<close>, makes no call to
  a memory primitive and leaves \<open>*new_size\<close> as it was. The preconditions of the function
  are assumed: \<open>stack\<close> is not null and, where the assertion is compiled, the asserted
  \<open>required_size > old_size\<close> holds.
\<close>

theorem prs_stack_grow_fails_past_ceiling:
  fixes cfg :: "'a::len word config"
  assumes "stack \<noteq> 0"
      and "PRS_PAL_OS cfg = PRS_PAL_OS_LINUX \<longrightarrow> old_size < stack - failed_ptr"
      and "if PRS_PAL_OS cfg = PRS_PAL_OS_WINDOWS
           then PRS_MAX_STACK_SIZE cfg < old_size + (1 + 3) * os_page_size cfg
                \<or> PRS_MAX_STACK_SIZE cfg - (1 + 3) * os_page_size cfg
                    < old_size + (1 + 3) * os_page_size cfg
           else PRS_MAX_STACK_SIZE cfg
                < prs_bitops_align_size (stack - failed_ptr) (os_page_size cfg)"
  shows "prs_stack_grow cfg stack old_size failed_ptr new_size =
         Inr \<lparr>returned = False, slot = new_size, pal_calls = []\<rparr>"
proof (cases "PRS_PAL_OS cfg")
  case PRS_PAL_OS_WINDOWS
  then show ?thesis using assms
    by (auto simp add: prs_stack_grow_def Let_def prs_pal_os_get_page_size_def
        PRS_STACK_EXTRA_PAGES_def)
next
  case PRS_PAL_OS_LINUX
  then show ?thesis using assms
    by (simp add: prs_stack_grow_def Let_def prs_pal_os_get_page_size_def)
qed


theorem prs_stack_grow_fails_past_ceiling_witness:
  "(0x7f0000100000 :: 64 word) \<noteq> 0
   \<and> (0x100000 :: 64 word) < 0x7f0000100000 - (0x7f0000100000 - 0x100001)
   \<and> PRS_MAX_STACK_SIZE linux_cfg < prs_bitops_align_size 0x100001 (os_page_size linux_cfg)
   \<and> prs_stack_grow linux_cfg 0x7f0000100000 0x100000 (0x7f0000100000 - 0x100001) 0x100000 =
         Inr \<lparr>returned = False, slot = 0x100000, pal_calls = []\<rparr>
   \<and> PRS_MAX_STACK_SIZE windows_cfg - (1 + 3) * os_page_size windows_cfg
         < 0xFC000 + (1 + 3) * os_page_size windows_cfg
   \<and> prs_stack_grow windows_cfg 0x7f0000100000 0xFC000 (0x7f0000100000 - 0xFC001) 0xFC000 =
         Inr \<lparr>returned = False, slot = 0xFC000, pal_calls = []\<rparr>"
  using prs_stack_grow_fails_past_ceiling [where cfg = linux_cfg and stack = "0x7f0000100000"
          and old_size = "0x100000" and failed_ptr = "0x7f0000100000 - 0x100001"
          and new_size = "0x100000"]
        prs_stack_grow_fails_past_ceiling [where cfg = windows_cfg and stack = "0x7f0000100000"
          and old_size = "0xFC000" and failed_ptr = "0x7f0000100000 - 0xFC001"
          and new_size = "0xFC000"]
  by (simp add: windows_cfg_def linux_cfg_def prs_bitops_align_size_def align_up_def)







text \<open>
  The round-up fits for every \<open>failed_ptr\<close> inside the reservation, when the ceiling is a
  multiple of the page size.
\<close>

lemma round_up_fits_in_range:
  fixes cfg :: "'a::len word config"
  assumes page: "0 < os_page_size cfg"
      and mult: "unat (os_page_size cfg) dvd unat (PRS_MAX_STACK_SIZE cfg)"
      and inr: "prs_stack_address_in_range cfg stack failed_ptr"
  shows "align_up (unat (stack - failed_ptr)) (unat (os_page_size cfg)) < 2 ^ LENGTH('a)"
proof -
  let ?p = "os_page_size cfg" and ?M = "PRS_MAX_STACK_SIZE cfg"
  have top: "?M \<le> stack" using inr by (rule prs_stack_address_in_range_top)
  have r: "unat stack - unat ?M \<le> unat failed_ptr" "unat failed_ptr < unat stack"
    using inr by (simp_all add: prs_stack_address_in_range_iff [OF top])
  then have "failed_ptr \<le> stack" by (simp add: word_le_nat_alt)
  then have "unat (stack - failed_ptr) = unat stack - unat failed_ptr" by (rule unat_sub)
  then have "unat (stack - failed_ptr) \<le> unat ?M" using r by linarith
  moreover have "0 < unat ?p" using page by (simp add: word_less_nat_alt)
  ultimately have "align_up (unat (stack - failed_ptr)) (unat ?p) \<le> unat ?M"
    using mult by (simp add: align_up_least)
  moreover have "unat ?M < 2 ^ LENGTH('a)" by (rule unsigned_less)
  ultimately show ?thesis by linarith
qed

text \<open>
  The size written by a successful \<open>prs_stack_create\<close> is such a committed size.
\<close>

lemma prs_stack_create_committed_size_ok:
  fixes cfg :: "'a::len word config"
  assumes fit: "align_up (unat sz) (unat (os_page_size cfg)) + guard_overhead cfg
                \<le> unat (PRS_MAX_STACK_SIZE cfg)"
  shows "committed_size_ok cfg (prs_bitops_align_size sz (os_page_size cfg))"
  using fit by (simp add: committed_size_ok_def create_checks(1) [OF fit] align_up_dvd)





section \<open>The pages committed by a successful growth\<close>

text \<open>
  The last commit of a successful \<open>prs_stack_grow\<close> starts at the new stack limit
  \<open>stack - new_size\<close> on both platforms. Its length is \<open>grow_size\<close>: on the
  alternate-handler platform that is the whole new size, so the range ends at \<open>stack\<close>;
  on the guard-page platform it is \<open>new_size - old_size\<close>, so the range ends at the old
  stack limit, and the extra pages and the guard page lie just below the new limit.
\<close>

lemma prs_stack_grow_linux_commit:
  fixes cfg :: "'a::len word config"
  assumes "PRS_PAL_OS cfg = PRS_PAL_OS_LINUX"
      and "prs_stack_grow cfg stack old_size failed_ptr new_size = Inr r"
      and "returned r"
  shows "pal_calls r = [Mem_commit (stack - slot r) (slot r)
                          {PRS_PAL_MEM_FLAG_READ, PRS_PAL_MEM_FLAG_WRITE}]"
  using prs_stack_grow_true(6) [OF assms(2,3)] assms(1) by simp

lemma prs_stack_grow_windows_commit:
  fixes cfg :: "'a::len word config"
  assumes "PRS_PAL_OS cfg = PRS_PAL_OS_WINDOWS"
      and "prs_stack_grow cfg stack old_size failed_ptr new_size = Inr r"
      and "returned r"
  shows "pal_calls r =
          [Mem_commit (stack - slot r - (1 + 3) * os_page_size cfg) (os_page_size cfg * 3)
             {PRS_PAL_MEM_FLAG_READ, PRS_PAL_MEM_FLAG_WRITE},
           Mem_commit (stack - slot r - os_page_size cfg) (os_page_size cfg)
             {PRS_PAL_MEM_FLAG_GUARD, PRS_PAL_MEM_FLAG_READ, PRS_PAL_MEM_FLAG_WRITE},
           Mem_commit (stack - slot r) (slot r - old_size)
             {PRS_PAL_MEM_FLAG_READ, PRS_PAL_MEM_FLAG_WRITE}]"
    and "stack - slot r + (slot r - old_size) = stack - old_size"
  using prs_stack_grow_true(2,6) [OF assms(2,3)] assms(1) by simp_all

text \<open>
  Claim C7. The read/write commit of a successful \<open>prs_stack_grow\<close> should cover exactly
  the pages between the new and the old stack limit, \<open>new_size - old_size\<close> bytes from
  \<open>stack - new_size\<close>, and none of the pages committed before. On the alternate-handler
  platform \<open>grow_size\<close> is computed like \<open>aligned_new_size\<close>: growing a stack of one
  committed page of 4096 bytes for a fault at \<open>stack - 4097\<close> commits 8192 bytes from
  \<open>stack - 8192\<close>, up to \<open>stack\<close>, the old page included, where the claim has 4096
  bytes.
\<close>

theorem prs_stack_grow_linux_recommits_old_region:
  "prs_stack_grow linux_cfg 0x7f0000100000 4096 (0x7f0000100000 - 4097) 4096 =
     Inr \<lparr>returned = True, slot = 8192,
          pal_calls = [Mem_commit (0x7f0000100000 - 8192) 8192
                         {PRS_PAL_MEM_FLAG_READ, PRS_PAL_MEM_FLAG_WRITE}]\<rparr>
   \<and> (0x7f0000100000 - 8192 :: 64 word) + 8192 = 0x7f0000100000"
  using linux_grow_example by simp

section \<open>The assertion of the alternate-handler platform\<close>

text \<open>
  Claim C9. When \<open>failed_ptr\<close> lies strictly below the committed region
  \<open>[stack - old_size, stack)\<close>, that is \<open>failed_ptr + old_size < stack\<close> as numbers,
  then \<open>required_size = stack - failed_ptr\<close> strictly exceeds \<open>old_size\<close>: the
  assertion of \<open>prs_stack_grow\<close> holds, its failure branch is not reached and the call
  returns. That \<open>failed_ptr\<close> is inside the reservation is not needed for this.
\<close>

theorem prs_stack_grow_assertion_holds:
  fixes cfg :: "'a::len word config"
  assumes below: "unat failed_ptr + unat old_size < unat stack"
  shows "old_size < stack - failed_ptr
       \<and> prs_stack_grow cfg stack old_size failed_ptr new_size \<noteq> Inl Assertion_failed
       \<and> (\<exists>r. prs_stack_grow cfg stack old_size failed_ptr new_size = Inr r)"
proof -
  have "failed_ptr \<le> stack" using below by (simp add: word_le_nat_alt)
  then have "unat (stack - failed_ptr) = unat stack - unat failed_ptr" by (rule unat_sub)
  then have req: "old_size < stack - failed_ptr"
    using below by (simp add: word_less_nat_alt)
  have "0 < unat stack" using below by linarith
  then have nz: "stack \<noteq> 0" by (simp add: unat_gt_0)
  have "\<exists>r. prs_stack_grow cfg stack old_size failed_ptr new_size = Inr r"
    using nz req by (simp add: prs_stack_grow_def Let_def)
  with req show ?thesis by auto
qed

theorem prs_stack_grow_assertion_holds_witness:
  "unat (0x7f0000100000 - 4097 :: 64 word) + unat (4096 :: 64 word) < unat (0x7f0000100000 :: 64 word)
   \<and> (4096 :: 64 word) < 0x7f0000100000 - (0x7f0000100000 - 4097)
   \<and> prs_stack_grow linux_cfg 0x7f0000100000 4096 (0x7f0000100000 - 4097) 4096
       \<noteq> Inl Assertion_failed"
  using prs_stack_grow_assertion_holds [where cfg = linux_cfg and stack = "0x7f0000100000"
      and old_size = 4096 and failed_ptr = "0x7f0000100000 - 4097" and new_size = 4096]
  by simp

text \<open>
  In machine arithmetic: for a committed size within the ceiling and a \<open>failed_ptr\<close>
  inside the reservation, \<open>failed_ptr < stack - old_size\<close> is that hypothesis.
\<close>

lemma below_committed_region:
  fixes cfg :: "'a::len word config"
  assumes lt: "failed_ptr < stack - old_size"
      and inr: "prs_stack_address_in_range cfg stack failed_ptr"
      and old: "old_size \<le> PRS_MAX_STACK_SIZE cfg"
  shows "unat failed_ptr + unat old_size < unat stack"
proof -
  have "PRS_MAX_STACK_SIZE cfg \<le> stack" using inr by (rule prs_stack_address_in_range_top)
  with old have "old_size \<le> stack" by (rule order_trans)
  then have "unat (stack - old_size) = unat stack - unat old_size" by (rule unat_sub)
  then show ?thesis using lt by (simp add: word_less_nat_alt)
qed

section \<open>Output parameters on failure\<close>

text \<open>
  Claim C10. A call that fails leaves its output parameter as it was:
  \<open>prs_stack_create\<close> returning null has not written \<open>*available_size\<close> (the end
  \<open>base + PRS_MAX_STACK_SIZE\<close> of a successful reservation being an address, hence not
  null), and \<open>prs_stack_grow\<close> returning \<open>PRS_FALSE\<close> has not written \<open>*new_size\<close>.
\<close>

theorem outputs_unwritten_on_failure:
  fixes cfg :: "'a::len word config"
  shows "(prs_stack_create cfg map_answer sz available_size = Inr r \<and> returned r = 0
          \<and> (map_answer \<noteq> 0 \<longrightarrow> map_answer + PRS_MAX_STACK_SIZE cfg \<noteq> 0)
          \<longrightarrow> slot r = available_size)
       \<and> (prs_stack_grow cfg stack old_size failed_ptr new_size = Inr g \<and> \<not> returned g
          \<longrightarrow> slot g = new_size)"
  using prs_stack_create_null(1) [of cfg map_answer sz available_size r]
        prs_stack_grow_false(1) [of cfg stack old_size failed_ptr new_size g]
  by blast

lemma linux_create_fail_example:
  "prs_stack_create linux_cfg 0x7f0000000000 0x100001 7 =
     Inr \<lparr>returned = 0, slot = 7, pal_calls = []\<rparr>"
  by (simp add: prs_stack_create_def linux_cfg_def Let_def prs_pal_os_get_page_size_def
        prs_bitops_align_size_def align_up_def)

lemma linux_grow_fail_example:
  "prs_stack_grow linux_cfg 0x7f0000100000 0x100000 (0x7f0000100000 - 0x100001) 0x100000 =
     Inr \<lparr>returned = False, slot = 0x100000, pal_calls = []\<rparr>"
  by (simp add: prs_stack_grow_def linux_cfg_def Let_def prs_pal_os_get_page_size_def
        prs_bitops_align_size_def align_up_def)

theorem outputs_unwritten_on_failure_witness:
  "(\<exists>r. prs_stack_create linux_cfg 0x7f0000000000 0x100001 7 = Inr r \<and> returned r = 0
        \<and> (0x7f0000000000 + PRS_MAX_STACK_SIZE linux_cfg \<noteq> 0) \<and> slot r = 7)
   \<and> (\<exists>r. prs_stack_create windows_cfg 0x7f0000000000 0x100000 7 = Inr r \<and> returned r = 0
        \<and> (0x7f0000000000 + PRS_MAX_STACK_SIZE windows_cfg \<noteq> 0) \<and> slot r = 7)
   \<and> (\<exists>g. prs_stack_grow linux_cfg 0x7f0000100000 0x100000 (0x7f0000100000 - 0x100001) 0x100000
            = Inr g \<and> \<not> returned g \<and> slot g = 0x100000)"
proof -
  have w: "prs_stack_create windows_cfg 0x7f0000000000 0x100000 7 =
     Inr \<lparr>returned = 0, slot = 7, pal_calls = [Mem_map 0x100000 {} 0x7f0000000000]\<rparr>"
    by (simp add: prs_stack_create_def windows_cfg_def Let_def prs_pal_os_get_page_size_def
        prs_bitops_align_size_def align_up_def PRS_STACK_EXTRA_PAGES_def prs_pal_mem_map_def)
  note a = outputs_unwritten_on_failure [where cfg = linux_cfg and map_answer = "0x7f0000000000"
      and sz = "0x100001" and available_size = 7
      and r = "\<lparr>returned = 0, slot = 7, pal_calls = []\<rparr>"
      and stack = "0x7f0000100000" and old_size = "0x100000"
      and failed_ptr = "0x7f0000100000 - 0x100001" and new_size = "0x100000"
      and g = "\<lparr>returned = False, slot = 0x100000, pal_calls = []\<rparr>"]
  note b = outputs_unwritten_on_failure [where cfg = windows_cfg and map_answer = "0x7f0000000000"
      and sz = "0x100000" and available_size = 7
      and r = "\<lparr>returned = 0, slot = 7, pal_calls = [Mem_map 0x100000 {} 0x7f0000000000]\<rparr>"
      and stack = "0x7f0000100000" and old_size = "0x100000"
      and failed_ptr = "0x7f0000100000 - 0x100001" and new_size = "0x100000"
      and g = "\<lparr>returned = False, slot = 0x100000, pal_calls = []\<rparr>"]
  show ?thesis
    using a b w linux_create_fail_example linux_grow_fail_example
    by (simp add: linux_cfg_def windows_cfg_def)
qed

end
